theory Spec2Isabelle
  imports Main "HOL-Library.Word"
begin

unbundle bit_operations_syntax

section \<open>Data model of pkg/proxy/util/iptables/traffic.go\<close>

text \<open>
  Go strings are byte sequences: \<open>string\<close>. A \<open>[]string\<close> is a \<open>string list\<close>; the
  nil slice and the empty slice both have length zero and are the empty list.

  The Go \<open>error\<close> values that the constructors of traffic.go can return: the value made
  by \<open>fmt.Errorf(msg)\<close> (no formatting verbs are used, so it carries \<open>msg\<close> as it is), and
  the parse error of the CIDR parser, with its \<open>Type\<close> and \<open>Text\<close> fields.
\<close>

datatype error =
    Errorf string
  | ParseError string string

text \<open>
  The structs \<open>detectLocalByCIDR\<close>, \<open>detectLocalByBridgeInterface\<close> and
  \<open>detectLocalByInterfaceNamePrefix\<close> declare the same four fields; one record type
  holds them, and the constructor of \<open>LocalTrafficDetector\<close> says which struct it is.
\<close>

record detectLocal =
  ifLocal :: "string list"
  ifNotLocal :: "string list"
  ifLocalNFT :: "string list"
  ifNotLocalNFT :: "string list"

text \<open>
  The interface \<open>LocalTrafficDetector\<close> has four implementations in the file; a value
  of the interface is one of them.
\<close>

datatype LocalTrafficDetector =
    noOpLocalDetector
  | detectLocalByCIDR detectLocal
  | detectLocalByBridgeInterface detectLocal
  | detectLocalByInterfaceNamePrefix detectLocal

section \<open>The methods of the interface\<close>

fun IsImplemented :: "LocalTrafficDetector \<Rightarrow> bool" where
  "IsImplemented noOpLocalDetector = False"
| "IsImplemented (detectLocalByCIDR d) = True"
| "IsImplemented (detectLocalByBridgeInterface d) = True"
| "IsImplemented (detectLocalByInterfaceNamePrefix d) = True"

fun IfLocal :: "LocalTrafficDetector \<Rightarrow> string list" where
  "IfLocal noOpLocalDetector = []"
| "IfLocal (detectLocalByCIDR d) = ifLocal d"
| "IfLocal (detectLocalByBridgeInterface d) = ifLocal d"
| "IfLocal (detectLocalByInterfaceNamePrefix d) = ifLocal d"

fun IfNotLocal :: "LocalTrafficDetector \<Rightarrow> string list" where
  "IfNotLocal noOpLocalDetector = []"
| "IfNotLocal (detectLocalByCIDR d) = ifNotLocal d"
| "IfNotLocal (detectLocalByBridgeInterface d) = ifNotLocal d"
| "IfNotLocal (detectLocalByInterfaceNamePrefix d) = ifNotLocal d"

fun IfLocalNFT :: "LocalTrafficDetector \<Rightarrow> string list" where
  "IfLocalNFT noOpLocalDetector = []"
| "IfLocalNFT (detectLocalByCIDR d) = ifLocalNFT d"
| "IfLocalNFT (detectLocalByBridgeInterface d) = ifLocalNFT d"
| "IfLocalNFT (detectLocalByInterfaceNamePrefix d) = ifLocalNFT d"

fun IfNotLocalNFT :: "LocalTrafficDetector \<Rightarrow> string list" where
  "IfNotLocalNFT noOpLocalDetector = []"
| "IfNotLocalNFT (detectLocalByCIDR d) = ifNotLocalNFT d"
| "IfNotLocalNFT (detectLocalByBridgeInterface d) = ifNotLocalNFT d"
| "IfNotLocalNFT (detectLocalByInterfaceNamePrefix d) = ifNotLocalNFT d"

section \<open>The constructors\<close>

definition NewNoOpLocalDetector :: "LocalTrafficDetector" where
  "NewNoOpLocalDetector = noOpLocalDetector"

text \<open>
  A constructor that can fail returns \<open>(LocalTrafficDetector, error)\<close>, with
  \<open>nil, err\<close> on failure and \<open>d, nil\<close> on success: \<open>Inl err\<close> and \<open>Inr d\<close>.
\<close>

definition NewDetectLocalByBridgeInterface :: "string \<Rightarrow> error + LocalTrafficDetector" where
  "NewDetectLocalByBridgeInterface interfaceName =
     (if length interfaceName = 0 then Inl (Errorf ''no bridge interface name set'')
      else Inr (detectLocalByBridgeInterface
        \<lparr> ifLocal = [''-i'', interfaceName],
          ifNotLocal = [''!'', ''-i'', interfaceName],
          ifLocalNFT = [''iif'', interfaceName],
          ifNotLocalNFT = [''iif'', ''!='', interfaceName] \<rparr>))"

definition NewDetectLocalByInterfaceNamePrefix :: "string \<Rightarrow> error + LocalTrafficDetector" where
  "NewDetectLocalByInterfaceNamePrefix interfacePrefix =
     (if length interfacePrefix = 0 then Inl (Errorf ''no interface prefix set'')
      else Inr (detectLocalByInterfaceNamePrefix
        \<lparr> ifLocal = [''-i'', interfacePrefix @ ''+''],
          ifNotLocal = [''!'', ''-i'', interfacePrefix @ ''+''],
          ifLocalNFT = [''iif'', interfacePrefix @ ''*''],
          ifNotLocalNFT = [''iif'', ''!='', interfacePrefix @ ''*''] \<rparr>))"

text \<open>
  \<open>NewDetectLocalByCIDR\<close> calls two functions of the package \<open>k8s.io/utils/net\<close>,
  \<open>ParseCIDRSloppy\<close> and \<open>IsIPv6CIDR\<close>, whose code is not part of traffic.go. The
  constructor is modelled over any such pair: \<open>parseCIDR\<close> returns the error or the
  pair of the parsed address and the parsed network (the constructor drops the address),
  \<open>isIPv6CIDR\<close> decides the family of the network.
\<close>

definition NewDetectLocalByCIDR ::
  "(string \<Rightarrow> error + ('ip \<times> 'net)) \<Rightarrow> ('net \<Rightarrow> bool) \<Rightarrow> string \<Rightarrow> error + LocalTrafficDetector" where
  "NewDetectLocalByCIDR parseCIDR isIPv6CIDR cidr =
     (case parseCIDR cidr of
        Inl err \<Rightarrow> Inl err
      | Inr (_, parsed) \<Rightarrow>
          (let nftFamily = (if isIPv6CIDR parsed then ''ip6'' else ''ip'')
           in Inr (detectLocalByCIDR
             \<lparr> ifLocal = [''-s'', cidr],
               ifNotLocal = [''!'', ''-s'', cidr],
               ifLocalNFT = [nftFamily, ''saddr'', cidr],
               ifNotLocalNFT = [nftFamily, ''saddr'', ''!='', cidr] \<rparr>)))"

section \<open>The CIDR parser called by the constructor\<close>

text \<open>
  Modelled from the spec: \<open>netutils.ParseCIDRSloppy\<close> and \<open>netutils.IsIPv6CIDR\<close>
  (package \<open>k8s.io/utils/net\<close>) are called by \<open>NewDetectLocalByCIDR\<close> and are not in
  traffic.go. The spec says that the string is parsed as a network prefix, that parsing
  fails with a \<open>ParseError\<close> when the string is not a syntactically valid
  address/prefix-length pair, and that the parsed prefix has an address family, v4 or v6.
  The definitions below give that parser for the textual notation \<open>address/length\<close>,
  laid out as the CIDR parser of Go's package \<open>net\<close> is, which \<open>ParseCIDRSloppy\<close>
  forks so that IPv4 fields with leading zeros stay accepted: a dotted-decimal IPv4
  address or a colon-hexadecimal IPv6 address, a slash, and a decimal length of at most
  32 or 128 bits. They serve as the concrete parser at which the theorems on
  \<open>NewDetectLocalByCIDR\<close>, stated for any parser, are instantiated.

  An address is a byte sequence, of 4 or 16 bytes; a network is an address and a mask.
  Parsed numbers are Go \<open>int\<close>s, far below the overflow bound, hence \<open>int\<close>; positions
  in a string are \<open>nat\<close>.
\<close>

type_synonym IP = "8 word list"
type_synonym IPMask = "8 word list"

record IPNet =
  IP :: IP
  Mask :: IPMask

definition IPv4len :: nat where
  "IPv4len = 4"

definition IPv6len :: nat where
  "IPv6len = 16"

definition v4InV6Prefix :: "8 word list" where
  "v4InV6Prefix = [0, 0, 0, 0, 0, 0, 0, 0, 0, 0, 0xff, 0xff]"

text \<open>An IPv4 address is built in its 16-byte form.\<close>

definition IPv4 :: "8 word \<Rightarrow> 8 word \<Rightarrow> 8 word \<Rightarrow> 8 word \<Rightarrow> IP" where
  "IPv4 a b c d = v4InV6Prefix @ [a, b, c, d]"

text \<open>Numbers at or above \<open>big\<close> are refused by the two number readers.\<close>

definition big :: int where
  "big = 0xFFFFFF"

definition isDigit :: "char \<Rightarrow> bool" where
  "isDigit c = (48 \<le> (of_char c :: int) \<and> (of_char c :: int) \<le> 57)"

definition hexVal :: "char \<Rightarrow> int option" where
  "hexVal c =
     (let k = (of_char c :: int)
      in if 48 \<le> k \<and> k \<le> 57 then Some (k - 48)
         else if 97 \<le> k \<and> k \<le> 102 then Some (k - 97 + 10)
         else if 65 \<le> k \<and> k \<le> 70 then Some (k - 65 + 10)
         else None)"

text \<open>
  \<open>dtoi\<close> reads the decimal digits at the start of a string: the number, how many
  characters it took, and whether there was a number. \<open>xtoi\<close> does so for hexadecimal
  digits.
\<close>

fun dtoi_from :: "int \<Rightarrow> nat \<Rightarrow> string \<Rightarrow> int \<times> nat \<times> bool" where
  "dtoi_from n i [] = (if i = 0 then (0, 0, False) else (n, i, True))"
| "dtoi_from n i (c # cs) =
     (if isDigit c then
        (let n' = n * 10 + ((of_char c :: int) - 48)
         in if n' \<ge> big then (big, i, False) else dtoi_from n' (i + 1) cs)
      else (if i = 0 then (0, 0, False) else (n, i, True)))"

definition dtoi :: "string \<Rightarrow> int \<times> nat \<times> bool" where
  "dtoi s = dtoi_from 0 0 s"

fun xtoi_from :: "int \<Rightarrow> nat \<Rightarrow> string \<Rightarrow> int \<times> nat \<times> bool" where
  "xtoi_from n i [] = (if i = 0 then (0, i, False) else (n, i, True))"
| "xtoi_from n i (c # cs) =
     (case hexVal c of
        None \<Rightarrow> (if i = 0 then (0, i, False) else (n, i, True))
      | Some v \<Rightarrow>
          (let n' = n * 16 + v
           in if n' \<ge> big then (0, i, False) else xtoi_from n' (i + 1) cs))"

definition xtoi :: "string \<Rightarrow> int \<times> nat \<times> bool" where
  "xtoi s = xtoi_from 0 0 s"

text \<open>
  The IPv4 address \<open>d.d.d.d\<close>: four decimal fields of value at most 255, a dot before
  each but the first, and nothing after the last. A field may have leading zeros.
  \<open>parseIPv4_fields k i s\<close> reads the \<open>k\<close> fields that remain, \<open>i\<close> being the index
  of the next one.
\<close>

fun parseIPv4_fields :: "nat \<Rightarrow> nat \<Rightarrow> string \<Rightarrow> 8 word list option" where
  "parseIPv4_fields 0 i s = (if s = [] then Some [] else None)"
| "parseIPv4_fields (Suc k) i s =
     (if s = [] then None
      else if i > 0 \<and> hd s \<noteq> CHR ''.'' then None
      else
        (let s1 = (if i > 0 then tl s else s)
         in case dtoi s1 of (n, c, ok) \<Rightarrow>
              if \<not> ok \<or> n > 0xFF then None
              else map_option ((#) (of_int n)) (parseIPv4_fields k (i + 1) (drop c s1))))"

definition parseIPv4 :: "string \<Rightarrow> IP option" where
  "parseIPv4 s =
     (case parseIPv4_fields IPv4len 0 s of
        Some [a, b, c, d] \<Rightarrow> Some (IPv4 a b c d)
      | _ \<Rightarrow> None)"

text \<open>
  The IPv6 address: groups of hexadecimal digits of value at most \<open>0xFFFF\<close> separated
  by colons, at most one \<open>::\<close> (the ellipsis, standing for one or more zero groups), and
  possibly an IPv4 address in place of the last two groups. The parser's loop fills the
  16 bytes from the left; \<open>ip\<close> is the part filled so far (its length is the loop's
  index), \<open>ellipsis\<close> the position of the \<open>::\<close> when one was seen. One turn of the
  loop fails, leaves the loop, or goes on to the next turn.
\<close>

datatype step =
    Fail
  | Break "8 word list" "nat option" string
  | Continue "8 word list" "nat option" string

definition parseIPv6_body :: "8 word list \<Rightarrow> nat option \<Rightarrow> string \<Rightarrow> step" where
  "parseIPv6_body ip ellipsis s =
     (case xtoi s of (n, c, ok) \<Rightarrow>
        if \<not> ok \<or> n > 0xFFFF then Fail
        else if c < length s \<and> s ! c = CHR ''.'' then
          (if ellipsis = None \<and> length ip \<noteq> IPv6len - IPv4len then Fail
           else if length ip + IPv4len > IPv6len then Fail
           else (case parseIPv4 s of
                   None \<Rightarrow> Fail
                 | Some ip4 \<Rightarrow> Break (ip @ drop 12 ip4) ellipsis []))
        else
          (let ip' = ip @ [of_int (n div 256), of_int n];
               s1 = drop c s
           in if s1 = [] then Break ip' ellipsis s1
              else if hd s1 \<noteq> CHR '':'' \<or> length s1 = 1 then Fail
              else
                (let s2 = tl s1
                 in if hd s2 = CHR '':'' then
                      (if ellipsis \<noteq> None then Fail
                       else if tl s2 = [] then Break ip' (Some (length ip')) []
                       else Continue ip' (Some (length ip')) (tl s2))
                    else Continue ip' ellipsis s2)))"

text \<open>
  The loop runs while fewer than 16 bytes are filled, and a turn that goes on has filled
  two more (lemma \<open>parseIPv6_body_Continue\<close>): from the empty address it takes at most
  \<open>IPv6len div 2\<close> turns, which the first argument counts down.
\<close>

fun parseIPv6_loop ::
  "nat \<Rightarrow> 8 word list \<Rightarrow> nat option \<Rightarrow> string \<Rightarrow> (8 word list \<times> nat option \<times> string) option" where
  "parseIPv6_loop 0 ip ellipsis s = Some (ip, ellipsis, s)"
| "parseIPv6_loop (Suc k) ip ellipsis s =
     (case parseIPv6_body ip ellipsis s of
        Fail \<Rightarrow> None
      | Break ip' ellipsis' s' \<Rightarrow> Some (ip', ellipsis', s')
      | Continue ip' ellipsis' s' \<Rightarrow> parseIPv6_loop k ip' ellipsis' s')"

definition parseIPv6 :: "string \<Rightarrow> IP option" where
  "parseIPv6 s =
     (let lead = (length s \<ge> 2 \<and> s ! 0 = CHR '':'' \<and> s ! 1 = CHR '':'');
          ellipsis = (if lead then Some 0 else None);
          s0 = (if lead then drop 2 s else s)
      in if lead \<and> s0 = [] then Some (replicate IPv6len 0)
         else
           (case parseIPv6_loop (IPv6len div 2) [] ellipsis s0 of
              None \<Rightarrow> None
            | Some (ip, ell, rest) \<Rightarrow>
                if rest \<noteq> [] then None
                else if length ip < IPv6len then
                  (case ell of
                     None \<Rightarrow> None
                   | Some e \<Rightarrow> Some (take e ip @ replicate (IPv6len - length ip) 0 @ drop e ip))
                else if ell \<noteq> None then None
                else Some ip))"

text \<open>The mask of \<open>ones\<close> one bits followed by zero bits, \<open>bits\<close> bits long.\<close>

fun maskBytes :: "nat \<Rightarrow> nat \<Rightarrow> IPMask" where
  "maskBytes 0 n = []"
| "maskBytes (Suc l) n =
     (if n \<ge> 8 then 0xff # maskBytes l (n - 8)
      else NOT (drop_bit n (0xff :: 8 word)) # maskBytes l 0)"

definition CIDRMask :: "int \<Rightarrow> int \<Rightarrow> IPMask" where
  "CIDRMask ones bits =
     (if bits \<noteq> 8 * int IPv4len \<and> bits \<noteq> 8 * int IPv6len then []
      else if ones < 0 \<or> ones > bits then []
      else maskBytes (nat (bits div 8)) (nat ones))"

text \<open>
  The address under a mask: a 4-byte mask applies to the last four bytes of an IPv4
  address in 16-byte form, and the result is nil (the empty sequence) when the lengths
  do not match.
\<close>

definition IP_Mask :: "IP \<Rightarrow> IPMask \<Rightarrow> IP" where
  "IP_Mask ip msk =
     (let msk1 = (if length msk = IPv6len \<and> length ip = IPv4len \<and>
                     list_all (\<lambda>b. b = 0xff) (take 12 msk)
                  then drop 12 msk else msk);
          ip1 = (if length msk1 = IPv4len \<and> length ip = IPv6len \<and> take 12 ip = v4InV6Prefix
                 then drop 12 ip else ip)
      in if length ip1 \<noteq> length msk1 then [] else map2 (AND) ip1 msk1)"

fun IndexByte :: "string \<Rightarrow> char \<Rightarrow> nat option" where
  "IndexByte [] c = None"
| "IndexByte (x # xs) c = (if x = c then Some 0 else map_option Suc (IndexByte xs c))"

text \<open>
  Modelled from the spec: \<open>netutils.ParseCIDRSloppy\<close>, missing from the sources. It
  splits the string at its first slash, reads the address as IPv4 and, failing that, as
  IPv6, reads the length, and returns the address with the network (the address under
  the mask of that length, and the mask). Every failure is the same \<open>ParseError\<close>,
  which carries the input.
\<close>

definition ParseCIDRSloppy :: "string \<Rightarrow> error + (IP \<times> IPNet)" where
  "ParseCIDRSloppy s =
     (case IndexByte s CHR ''/'' of
        None \<Rightarrow> Inl (ParseError ''CIDR address'' s)
      | Some i \<Rightarrow>
          (let addr = take i s;
               msk = drop (i + 1) s;
               v4 = parseIPv4 addr;
               iplen = (if v4 = None then IPv6len else IPv4len);
               ip = (if v4 = None then parseIPv6 addr else v4)
           in case dtoi msk of (n, j, ok) \<Rightarrow>
                (case ip of
                   None \<Rightarrow> Inl (ParseError ''CIDR address'' s)
                 | Some a \<Rightarrow>
                     if \<not> ok \<or> j \<noteq> length msk \<or> n < 0 \<or> n > 8 * int iplen
                     then Inl (ParseError ''CIDR address'' s)
                     else (let m = CIDRMask n (8 * int iplen)
                           in Inr (a, \<lparr> IP = IP_Mask a m, Mask = m \<rparr>)))))"

text \<open>
  Modelled from the spec: \<open>netutils.IsIPv6CIDR\<close>, missing from the sources. The family
  of a network is the family of its address: v4 when the address has 4 bytes or is an
  IPv4 address in 16-byte form, v6 for any other address that is not nil.
\<close>

definition To4 :: "IP \<Rightarrow> IP option" where
  "To4 ip =
     (if length ip = IPv4len then Some ip
      else if length ip = IPv6len \<and> take 12 ip = v4InV6Prefix then Some (drop 12 ip)
      else None)"

definition IsIPv6 :: "IP \<Rightarrow> bool" where
  "IsIPv6 netIP = (netIP \<noteq> [] \<and> To4 netIP = None)"

definition IsIPv6CIDR :: "IPNet \<Rightarrow> bool" where
  "IsIPv6CIDR cidr = IsIPv6 (IP cidr)"

section \<open>The detectors in memory\<close>

text \<open>
  A slice is a pointer to its backing array (nil for the nil slice), a length and a
  capacity; a slice value handed to a caller still points to the same array. The
  arrays and the structs live in a heap, at addresses; an address is an index.
\<close>

type_synonym addr = nat

datatype slice = Slice (slice_array: "addr option") (slice_len: nat) (slice_cap: nat)

definition nil_slice :: slice where
  "nil_slice = Slice None 0 0"

text \<open>
  The four fields that the three detector structs declare, and the dynamic type of a
  struct, which selects the method a call through the interface runs. A struct in the
  heap is its type and its fields; \<open>noOpLocalDetector\<close> is \<open>struct{}\<close> and has none.
\<close>

datatype field = Field_ifLocal | Field_ifNotLocal | Field_ifLocalNFT | Field_ifNotLocalNFT

datatype struct_type =
    Type_noOpLocalDetector
  | Type_detectLocalByCIDR
  | Type_detectLocalByBridgeInterface
  | Type_detectLocalByInterfaceNamePrefix

datatype object = Object (object_type: struct_type) (object_fields: "field \<rightharpoonup> slice")

record heap =
  arrays :: "string list list"
  objects :: "object list"

definition lookup :: "'a list \<Rightarrow> addr \<Rightarrow> 'a option" where
  "lookup xs a = (if a < length xs then Some (xs ! a) else None)"

text \<open>
  What a method can do with its pointer receiver \<open>d\<close>: return a constant, \<open>nil\<close>
  or a field \<open>d.f\<close>; assign to a field (\<open>d.f = e\<close>); assign to an element of a
  field's slice (\<open>d.f[i] = x\<close>); do one after the other. A statement panics, goes on
  with the heap it leaves, or returns a value and the heap it leaves.
\<close>

datatype gvalue = BoolValue bool | SliceValue slice

datatype expr = BoolLit bool | NilLit | FieldOf field

datatype stmt =
    Return expr
  | AssignField field expr
  | AssignElem field nat string
  | Seq stmt stmt

datatype outcome = Panic | Next heap | Returned gvalue heap

definition get_field :: "heap \<Rightarrow> addr \<Rightarrow> field \<Rightarrow> slice option" where
  "get_field h p f =
     (case lookup (objects h) p of None \<Rightarrow> None | Some ob \<Rightarrow> object_fields ob f)"

definition set_field :: "addr \<Rightarrow> field \<Rightarrow> slice \<Rightarrow> heap \<Rightarrow> heap option" where
  "set_field p f s h =
     (case lookup (objects h) p of
        None \<Rightarrow> None
      | Some ob \<Rightarrow>
          if object_fields ob f = None then None
          else Some (h\<lparr> objects :=
                 (objects h)[p := Object (object_type ob) ((object_fields ob)(f \<mapsto> s))] \<rparr>))"

definition store_elem :: "slice \<Rightarrow> nat \<Rightarrow> string \<Rightarrow> heap \<Rightarrow> heap option" where
  "store_elem s i x h =
     (case slice_array s of
        None \<Rightarrow> None
      | Some a \<Rightarrow>
          (case lookup (arrays h) a of
             None \<Rightarrow> None
           | Some xs \<Rightarrow>
               if i < slice_len s \<and> i < length xs
               then Some (h\<lparr> arrays := (arrays h)[a := xs[i := x]] \<rparr>)
               else None))"

fun eval :: "expr \<Rightarrow> addr \<Rightarrow> heap \<Rightarrow> gvalue option" where
  "eval (BoolLit b) p h = Some (BoolValue b)"
| "eval NilLit p h = Some (SliceValue nil_slice)"
| "eval (FieldOf f) p h = map_option SliceValue (get_field h p f)"

fun exec :: "stmt \<Rightarrow> addr \<Rightarrow> heap \<Rightarrow> outcome" where
  "exec (Return e) p h =
     (case eval e p h of None \<Rightarrow> Panic | Some v \<Rightarrow> Returned v h)"
| "exec (AssignField f e) p h =
     (case eval e p h of
        Some (SliceValue s) \<Rightarrow>
          (case set_field p f s h of None \<Rightarrow> Panic | Some h' \<Rightarrow> Next h')
      | _ \<Rightarrow> Panic)"
| "exec (AssignElem f i x) p h =
     (case get_field h p f of
        None \<Rightarrow> Panic
      | Some s \<Rightarrow> (case store_elem s i x h of None \<Rightarrow> Panic | Some h' \<Rightarrow> Next h'))"
| "exec (Seq c1 c2) p h =
     (case exec c1 p h of Next h' \<Rightarrow> exec c2 p h' | out \<Rightarrow> out)"

text \<open>
  The twenty method bodies of traffic.go, by receiver type and method, as they are
  written there: each is one \<open>return\<close>.
\<close>

datatype accessor =
    Call_IsImplemented
  | Call_IfLocal
  | Call_IfNotLocal
  | Call_IfLocalNFT
  | Call_IfNotLocalNFT

fun method_body :: "struct_type \<Rightarrow> accessor \<Rightarrow> stmt" where
  "method_body Type_noOpLocalDetector Call_IsImplemented = Return (BoolLit False)"
| "method_body Type_noOpLocalDetector Call_IfLocal = Return NilLit"
| "method_body Type_noOpLocalDetector Call_IfNotLocal = Return NilLit"
| "method_body Type_noOpLocalDetector Call_IfLocalNFT = Return NilLit"
| "method_body Type_noOpLocalDetector Call_IfNotLocalNFT = Return NilLit"
| "method_body Type_detectLocalByCIDR Call_IsImplemented = Return (BoolLit True)"
| "method_body Type_detectLocalByCIDR Call_IfLocal = Return (FieldOf Field_ifLocal)"
| "method_body Type_detectLocalByCIDR Call_IfNotLocal = Return (FieldOf Field_ifNotLocal)"
| "method_body Type_detectLocalByCIDR Call_IfLocalNFT = Return (FieldOf Field_ifLocalNFT)"
| "method_body Type_detectLocalByCIDR Call_IfNotLocalNFT = Return (FieldOf Field_ifNotLocalNFT)"
| "method_body Type_detectLocalByBridgeInterface Call_IsImplemented = Return (BoolLit True)"
| "method_body Type_detectLocalByBridgeInterface Call_IfLocal = Return (FieldOf Field_ifLocal)"
| "method_body Type_detectLocalByBridgeInterface Call_IfNotLocal = Return (FieldOf Field_ifNotLocal)"
| "method_body Type_detectLocalByBridgeInterface Call_IfLocalNFT = Return (FieldOf Field_ifLocalNFT)"
| "method_body Type_detectLocalByBridgeInterface Call_IfNotLocalNFT =
     Return (FieldOf Field_ifNotLocalNFT)"
| "method_body Type_detectLocalByInterfaceNamePrefix Call_IsImplemented = Return (BoolLit True)"
| "method_body Type_detectLocalByInterfaceNamePrefix Call_IfLocal = Return (FieldOf Field_ifLocal)"
| "method_body Type_detectLocalByInterfaceNamePrefix Call_IfNotLocal =
     Return (FieldOf Field_ifNotLocal)"
| "method_body Type_detectLocalByInterfaceNamePrefix Call_IfLocalNFT =
     Return (FieldOf Field_ifLocalNFT)"
| "method_body Type_detectLocalByInterfaceNamePrefix Call_IfNotLocalNFT =
     Return (FieldOf Field_ifNotLocalNFT)"

text \<open>
  A call through the interface runs the body for the struct's type on the struct;
  \<open>invokes\<close> makes a sequence of calls, each on the heap the previous one left.
\<close>

definition invoke :: "accessor \<Rightarrow> addr \<Rightarrow> heap \<Rightarrow> outcome" where
  "invoke a p h =
     (case lookup (objects h) p of
        None \<Rightarrow> Panic
      | Some ob \<Rightarrow> exec (method_body (object_type ob) a) p h)"

fun invokes :: "accessor list \<Rightarrow> addr \<Rightarrow> heap \<Rightarrow> (gvalue list \<times> heap) option" where
  "invokes [] p h = Some ([], h)"
| "invokes (a # as) p h =
     (case invoke a p h of
        Returned v h' \<Rightarrow>
          (case invokes as p h' of None \<Rightarrow> None | Some (vs, h'') \<Rightarrow> Some (v # vs, h''))
      | _ \<Rightarrow> None)"

text \<open>
  The tokens a slice shows in a heap, and the detector a struct shows: the value of
  \<open>LocalTrafficDetector\<close> whose sequences are what the four field slices show.
\<close>

definition slice_tokens :: "heap \<Rightarrow> slice \<Rightarrow> string list option" where
  "slice_tokens h s =
     (case slice_array s of
        None \<Rightarrow> (if slice_len s = 0 then Some [] else None)
      | Some a \<Rightarrow>
          (case lookup (arrays h) a of
             None \<Rightarrow> None
           | Some xs \<Rightarrow> if slice_len s \<le> length xs then Some (take (slice_len s) xs) else None))"

definition field_tokens :: "heap \<Rightarrow> object \<Rightarrow> field \<Rightarrow> string list option" where
  "field_tokens h ob f =
     (case object_fields ob f of None \<Rightarrow> None | Some s \<Rightarrow> slice_tokens h s)"

definition read_fields :: "heap \<Rightarrow> object \<Rightarrow> detectLocal option" where
  "read_fields h ob =
     (case (field_tokens h ob Field_ifLocal, field_tokens h ob Field_ifNotLocal,
            field_tokens h ob Field_ifLocalNFT, field_tokens h ob Field_ifNotLocalNFT) of
        (Some a, Some b, Some c, Some d) \<Rightarrow>
          Some \<lparr> ifLocal = a, ifNotLocal = b, ifLocalNFT = c, ifNotLocalNFT = d \<rparr>
      | _ \<Rightarrow> None)"

definition detector_at :: "heap \<Rightarrow> addr \<Rightarrow> LocalTrafficDetector option" where
  "detector_at h p =
     (case lookup (objects h) p of
        None \<Rightarrow> None
      | Some ob \<Rightarrow>
          (case object_type ob of
             Type_noOpLocalDetector \<Rightarrow> Some noOpLocalDetector
           | Type_detectLocalByCIDR \<Rightarrow> map_option detectLocalByCIDR (read_fields h ob)
           | Type_detectLocalByBridgeInterface \<Rightarrow>
               map_option detectLocalByBridgeInterface (read_fields h ob)
           | Type_detectLocalByInterfaceNamePrefix \<Rightarrow>
               map_option detectLocalByInterfaceNamePrefix (read_fields h ob)))"

text \<open>
  The composite literals of the constructors: \<open>[]string{...}\<close> is a new array and the
  slice of all of it, \<open>&T{...}\<close> is a new struct with these slices as its fields.
  \<open>new_detector d h\<close> puts the detector \<open>d\<close> that a constructor computed into the
  heap and returns its address.
\<close>

definition whole :: "addr \<Rightarrow> string list \<Rightarrow> slice" where
  "whole a xs = Slice (Some a) (length xs) (length xs)"

definition struct_object :: "struct_type \<Rightarrow> addr \<Rightarrow> detectLocal \<Rightarrow> object" where
  "struct_object ty a r =
     Object ty
       [Field_ifLocal \<mapsto> whole a (ifLocal r),
        Field_ifNotLocal \<mapsto> whole (a + 1) (ifNotLocal r),
        Field_ifLocalNFT \<mapsto> whole (a + 2) (ifLocalNFT r),
        Field_ifNotLocalNFT \<mapsto> whole (a + 3) (ifNotLocalNFT r)]"

definition new_struct :: "struct_type \<Rightarrow> detectLocal \<Rightarrow> heap \<Rightarrow> addr \<times> heap" where
  "new_struct ty r h =
     (length (objects h),
      \<lparr> arrays = arrays h @ [ifLocal r, ifNotLocal r, ifLocalNFT r, ifNotLocalNFT r],
        objects = objects h @ [struct_object ty (length (arrays h)) r] \<rparr>)"

fun new_detector :: "LocalTrafficDetector \<Rightarrow> heap \<Rightarrow> addr \<times> heap" where
  "new_detector noOpLocalDetector h =
     (length (objects h),
      h\<lparr> objects := objects h @ [Object Type_noOpLocalDetector Map.empty] \<rparr>)"
| "new_detector (detectLocalByCIDR r) h = new_struct Type_detectLocalByCIDR r h"
| "new_detector (detectLocalByBridgeInterface r) h =
     new_struct Type_detectLocalByBridgeInterface r h"
| "new_detector (detectLocalByInterfaceNamePrefix r) h =
     new_struct Type_detectLocalByInterfaceNamePrefix r h"

text \<open>
  What a caller sees of a returned value, and what the accessors of the previous
  sections say it should see.
\<close>

datatype result = Bool bool | Tokens "string list"

fun answer :: "accessor \<Rightarrow> LocalTrafficDetector \<Rightarrow> result" where
  "answer Call_IsImplemented d = Bool (IsImplemented d)"
| "answer Call_IfLocal d = Tokens (IfLocal d)"
| "answer Call_IfNotLocal d = Tokens (IfNotLocal d)"
| "answer Call_IfLocalNFT d = Tokens (IfLocalNFT d)"
| "answer Call_IfNotLocalNFT d = Tokens (IfNotLocalNFT d)"

fun observe :: "heap \<Rightarrow> gvalue \<Rightarrow> result option" where
  "observe h (BoolValue b) = Some (Bool b)"
| "observe h (SliceValue s) = map_option Tokens (slice_tokens h s)"

definition empty_heap :: heap where
  "empty_heap = \<lparr> arrays = [], objects = [] \<rparr>"

text \<open>The detector that \<open>NewDetectLocalByBridgeInterface\<close> returns for \<open>cbr0\<close>.\<close>

definition cbr0 :: LocalTrafficDetector where
  "cbr0 = detectLocalByBridgeInterface
     \<lparr> ifLocal = [''-i'', ''cbr0''], ifNotLocal = [''!'', ''-i'', ''cbr0''],
       ifLocalNFT = [''iif'', ''cbr0''], ifNotLocalNFT = [''iif'', ''!='', ''cbr0''] \<rparr>"

section \<open>Facts about the parser\<close>

text \<open>A turn of the IPv6 loop that goes on has filled two more bytes.\<close>

lemma parseIPv6_body_Continue:
  "parseIPv6_body ip ellipsis s = Continue ip' ellipsis' s' \<Longrightarrow> length ip' = length ip + 2"
  by (auto simp: parseIPv6_body_def Let_def split: prod.splits if_splits option.splits)

text \<open>The only error of the parser is the \<open>ParseError\<close> that carries its input.\<close>

lemma ParseCIDRSloppy_error:
  "ParseCIDRSloppy s = Inl e \<Longrightarrow> e = ParseError ''CIDR address'' s"
  by (auto simp: ParseCIDRSloppy_def Let_def split: option.splits prod.splits if_splits)

text \<open>The parser on the inputs of the spec's examples.\<close>

lemma parse_v4:
  "ParseCIDRSloppy ''10.0.0.0/8'' =
     Inr (IPv4 10 0 0 0, \<lparr> IP = [10, 0, 0, 0], Mask = [255, 0, 0, 0] \<rparr>)"
  by code_simp

lemma parse_v4_host:
  "ParseCIDRSloppy ''10.0.0.1/8'' =
     Inr (IPv4 10 0 0 1, \<lparr> IP = [10, 0, 0, 0], Mask = [255, 0, 0, 0] \<rparr>)"
  by code_simp

lemma parse_v6:
  "ParseCIDRSloppy ''fd00::/8'' =
     Inr ([0xfd, 0, 0, 0, 0, 0, 0, 0, 0, 0, 0, 0, 0, 0, 0, 0],
          \<lparr> IP = [0xfd, 0, 0, 0, 0, 0, 0, 0, 0, 0, 0, 0, 0, 0, 0, 0],
            Mask = [255, 0, 0, 0, 0, 0, 0, 0, 0, 0, 0, 0, 0, 0, 0, 0] \<rparr>)"
  by code_simp

lemma parse_bad:
  "ParseCIDRSloppy ''not-a-cidr'' = Inl (ParseError ''CIDR address'' ''not-a-cidr'')"
  by code_simp

lemma family_v4: "\<not> IsIPv6CIDR \<lparr> IP = [10, 0, 0, 0], Mask = [255, 0, 0, 0] \<rparr>"
  by code_simp

lemma family_v6:
  "IsIPv6CIDR \<lparr> IP = [0xfd, 0, 0, 0, 0, 0, 0, 0, 0, 0, 0, 0, 0, 0, 0, 0],
                Mask = [255, 0, 0, 0, 0, 0, 0, 0, 0, 0, 0, 0, 0, 0, 0, 0] \<rparr>"
  by code_simp

text \<open>The constructor fails when its parser does, with the parser's error.\<close>

lemma NewDetectLocalByCIDR_Inl:
  "(NewDetectLocalByCIDR parseCIDR isIPv6CIDR cidr = Inl e) = (parseCIDR cidr = Inl e)"
  by (simp add: NewDetectLocalByCIDR_def Let_def split: sum.splits prod.splits)

lemma NewDetectLocalByCIDR_Inr:
  "(\<exists>d. NewDetectLocalByCIDR parseCIDR isIPv6CIDR cidr = Inr d) = (\<exists>r. parseCIDR cidr = Inr r)"
  by (simp add: NewDetectLocalByCIDR_def Let_def split: sum.splits prod.splits)

section \<open>Facts about the method calls\<close>

lemma read_fields_Some:
  assumes "read_fields h ob = Some r"
  shows "field_tokens h ob Field_ifLocal = Some (ifLocal r) \<and>
         field_tokens h ob Field_ifNotLocal = Some (ifNotLocal r) \<and>
         field_tokens h ob Field_ifLocalNFT = Some (ifLocalNFT r) \<and>
         field_tokens h ob Field_ifNotLocalNFT = Some (ifNotLocalNFT r)"
  using assms unfolding read_fields_def
  by (auto split: option.splits)

lemma field_tokens_Some:
  assumes "field_tokens h ob f = Some ts"
  shows "\<exists>s. object_fields ob f = Some s \<and> slice_tokens h s = Some ts"
  using assms unfolding field_tokens_def
  by (auto split: option.splits)


lemma invoke_bool:
  assumes "lookup (objects h) p = Some ob"
    and "method_body (object_type ob) a = Return (BoolLit b)"
  shows "\<exists>v. invoke a p h = Returned v h \<and> observe h v = Some (Bool b)"
  using assms by (simp add: invoke_def)

lemma invoke_nil:
  assumes "lookup (objects h) p = Some ob"
    and "method_body (object_type ob) a = Return NilLit"
  shows "\<exists>v. invoke a p h = Returned v h \<and> observe h v = Some (Tokens [])"
  using assms by (simp add: invoke_def nil_slice_def slice_tokens_def)

lemma invoke_field:
  assumes "lookup (objects h) p = Some ob"
    and "method_body (object_type ob) a = Return (FieldOf f)"
    and "field_tokens h ob f = Some ts"
  shows "\<exists>v. invoke a p h = Returned v h \<and> observe h v = Some (Tokens ts)"
proof -
  from field_tokens_Some [OF assms(3)] obtain s
    where s: "object_fields ob f = Some s" "slice_tokens h s = Some ts"
    by blast
  from assms(1) s(1) have "get_field h p f = Some s"
    by (simp add: get_field_def)
  with assms(1,2) s(2) show ?thesis
    by (simp add: invoke_def)
qed

lemma invoke_struct:
  assumes ob: "lookup (objects h) p = Some ob"
    and ty: "object_type ob \<noteq> Type_noOpLocalDetector"
    and r: "read_fields h ob = Some r"
  shows "\<exists>v. invoke a p h = Returned v h \<and>
           observe h v = Some (case a of
               Call_IsImplemented \<Rightarrow> Bool True
             | Call_IfLocal \<Rightarrow> Tokens (ifLocal r)
             | Call_IfNotLocal \<Rightarrow> Tokens (ifNotLocal r)
             | Call_IfLocalNFT \<Rightarrow> Tokens (ifLocalNFT r)
             | Call_IfNotLocalNFT \<Rightarrow> Tokens (ifNotLocalNFT r))"
proof (cases a)
  case Call_IsImplemented
  with ty have "method_body (object_type ob) a = Return (BoolLit True)"
    by (cases "object_type ob") simp_all
  from invoke_bool [OF ob this] Call_IsImplemented show ?thesis by simp
next
  case Call_IfLocal
  with ty have "method_body (object_type ob) a = Return (FieldOf Field_ifLocal)"
    by (cases "object_type ob") simp_all
  from invoke_field [OF ob this] read_fields_Some [OF r] Call_IfLocal show ?thesis by simp
next
  case Call_IfNotLocal
  with ty have "method_body (object_type ob) a = Return (FieldOf Field_ifNotLocal)"
    by (cases "object_type ob") simp_all
  from invoke_field [OF ob this] read_fields_Some [OF r] Call_IfNotLocal show ?thesis by simp
next
  case Call_IfLocalNFT
  with ty have "method_body (object_type ob) a = Return (FieldOf Field_ifLocalNFT)"
    by (cases "object_type ob") simp_all
  from invoke_field [OF ob this] read_fields_Some [OF r] Call_IfLocalNFT show ?thesis by simp
next
  case Call_IfNotLocalNFT
  with ty have "method_body (object_type ob) a = Return (FieldOf Field_ifNotLocalNFT)"
    by (cases "object_type ob") simp_all
  from invoke_field [OF ob this] read_fields_Some [OF r] Call_IfNotLocalNFT show ?thesis by simp
qed

lemma invoke_noOp:
  assumes ob: "lookup (objects h) p = Some ob"
    and ty: "object_type ob = Type_noOpLocalDetector"
  shows "\<exists>v. invoke a p h = Returned v h \<and> observe h v = Some (answer a noOpLocalDetector)"
proof (cases a)
  case Call_IsImplemented
  with ty have "method_body (object_type ob) a = Return (BoolLit False)" by simp
  from invoke_bool [OF ob this] Call_IsImplemented show ?thesis by simp
next
  case Call_IfLocal
  with ty have "method_body (object_type ob) a = Return NilLit" by simp
  from invoke_nil [OF ob this] Call_IfLocal show ?thesis by simp
next
  case Call_IfNotLocal
  with ty have "method_body (object_type ob) a = Return NilLit" by simp
  from invoke_nil [OF ob this] Call_IfNotLocal show ?thesis by simp
next
  case Call_IfLocalNFT
  with ty have "method_body (object_type ob) a = Return NilLit" by simp
  from invoke_nil [OF ob this] Call_IfLocalNFT show ?thesis by simp
next
  case Call_IfNotLocalNFT
  with ty have "method_body (object_type ob) a = Return NilLit" by simp
  from invoke_nil [OF ob this] Call_IfNotLocalNFT show ?thesis by simp
qed

lemma invoke_returns:
  assumes "detector_at h p = Some d"
  shows "\<exists>v. invoke a p h = Returned v h \<and> observe h v = Some (answer a d)"
proof -
  from assms obtain ob where ob: "lookup (objects h) p = Some ob"
    by (auto simp: detector_at_def split: option.splits)
  show ?thesis
  proof (cases "object_type ob")
    case Type_noOpLocalDetector
    with assms ob have "d = noOpLocalDetector"
      by (simp add: detector_at_def)
    with invoke_noOp [OF ob Type_noOpLocalDetector] show ?thesis by simp
  next
    case Type_detectLocalByCIDR
    with assms ob obtain r where r: "read_fields h ob = Some r" "d = detectLocalByCIDR r"
      by (auto simp: detector_at_def)
    from Type_detectLocalByCIDR have "object_type ob \<noteq> Type_noOpLocalDetector" by simp
    from invoke_struct [OF ob this r(1), of a] r(2) show ?thesis
      by (cases a) simp_all
  next
    case Type_detectLocalByBridgeInterface
    with assms ob obtain r
      where r: "read_fields h ob = Some r" "d = detectLocalByBridgeInterface r"
      by (auto simp: detector_at_def)
    from Type_detectLocalByBridgeInterface
    have "object_type ob \<noteq> Type_noOpLocalDetector" by simp
    from invoke_struct [OF ob this r(1), of a] r(2) show ?thesis
      by (cases a) simp_all
  next
    case Type_detectLocalByInterfaceNamePrefix
    with assms ob obtain r
      where r: "read_fields h ob = Some r" "d = detectLocalByInterfaceNamePrefix r"
      by (auto simp: detector_at_def)
    from Type_detectLocalByInterfaceNamePrefix
    have "object_type ob \<noteq> Type_noOpLocalDetector" by simp
    from invoke_struct [OF ob this r(1), of a] r(2) show ?thesis
      by (cases a) simp_all
  qed
qed

lemma invokes_returns:
  assumes "detector_at h p = Some d"
  shows "\<exists>vs. invokes as p h = Some (vs, h) \<and>
           list_all2 (\<lambda>a v. invoke a p h = Returned v h \<and> observe h v = Some (answer a d)) as vs"
proof (induction as)
  case Nil
  show ?case by simp
next
  case (Cons b bs)
  from invoke_returns [OF assms, of b] obtain v
    where v: "invoke b p h = Returned v h" "observe h v = Some (answer b d)"
    by blast
  from Cons.IH obtain vs
    where vs: "invokes bs p h = Some (vs, h)"
      "list_all2 (\<lambda>a v. invoke a p h = Returned v h \<and> observe h v = Some (answer a d)) bs vs"
    by blast
  from v vs show ?case by simp
qed

lemma new_struct_read:
  "read_fields (snd (new_struct ty r h)) (struct_object ty (length (arrays h)) r) = Some r"
  by (simp add: new_struct_def struct_object_def whole_def read_fields_def field_tokens_def
      slice_tokens_def lookup_def nth_append)

lemma new_struct_represents:
  assumes "ty \<noteq> Type_noOpLocalDetector"
  shows "detector_at (snd (new_struct ty r h)) (fst (new_struct ty r h)) =
     Some (case ty of
         Type_detectLocalByCIDR \<Rightarrow> detectLocalByCIDR r
       | Type_detectLocalByBridgeInterface \<Rightarrow> detectLocalByBridgeInterface r
       | Type_detectLocalByInterfaceNamePrefix \<Rightarrow> detectLocalByInterfaceNamePrefix r
       | Type_noOpLocalDetector \<Rightarrow> noOpLocalDetector)"
proof -
  have ob: "lookup (objects (snd (new_struct ty r h))) (fst (new_struct ty r h)) =
      Some (struct_object ty (length (arrays h)) r)"
    by (simp add: new_struct_def lookup_def)
  have ty: "object_type (struct_object ty (length (arrays h)) r) = ty"
    by (simp add: struct_object_def)
  show ?thesis
    unfolding detector_at_def ob option.case ty
    using assms new_struct_read [of ty r h] by (cases ty) simp_all
qed

lemma new_detector_represents:
  "detector_at (snd (new_detector d h)) (fst (new_detector d h)) = Some d"
proof (cases d)
  case noOpLocalDetector
  then show ?thesis by (simp add: detector_at_def lookup_def)
next
  case (detectLocalByCIDR r)
  then show ?thesis by (simp add: new_struct_represents)
next
  case (detectLocalByBridgeInterface r)
  then show ?thesis by (simp add: new_struct_represents)
next
  case (detectLocalByInterfaceNamePrefix r)
  then show ?thesis by (simp add: new_struct_represents)
qed

lemma cbr0_heap:
  "new_detector cbr0 empty_heap =
     (0, \<lparr> arrays = [[''-i'', ''cbr0''], [''!'', ''-i'', ''cbr0''], [''iif'', ''cbr0''],
                     [''iif'', ''!='', ''cbr0'']],
           objects = [Object Type_detectLocalByBridgeInterface
             [Field_ifLocal \<mapsto> Slice (Some 0) 2 2, Field_ifNotLocal \<mapsto> Slice (Some 1) 3 3,
              Field_ifLocalNFT \<mapsto> Slice (Some 2) 2 2,
              Field_ifNotLocalNFT \<mapsto> Slice (Some 3) 3 3]] \<rparr>)"
  by (simp add: cbr0_def empty_heap_def new_struct_def struct_object_def whole_def
      eval_nat_numeral)

lemma writing_body_is_told_apart:
  "exec (Seq (AssignElem Field_ifLocal 0 ''-o'') (Return (FieldOf Field_ifLocal))) 0
     (snd (new_detector cbr0 empty_heap)) \<noteq>
   Returned (SliceValue (Slice (Some 0) 2 2)) (snd (new_detector cbr0 empty_heap))"
  by (simp add: cbr0_heap store_elem_def lookup_def get_field_def)

text \<open>
  The accessors return the field's slice itself, not a copy: when a caller writes
  through the slice it got, the next call shows the written token. Such a write is the
  caller's, not an accessor's.
\<close>

lemma caller_write_is_seen:
  assumes "NewDetectLocalByBridgeInterface ''cbr0'' = Inr d"
    and "new_detector d empty_heap = (p, h)"
  shows "\<exists>s h'. invoke Call_IfLocal p h = Returned (SliceValue s) h \<and>
     observe h (SliceValue s) = Some (Tokens [''-i'', ''cbr0'']) \<and>
     store_elem s 0 ''-o'' h = Some h' \<and>
     invoke Call_IfLocal p h' = Returned (SliceValue s) h' \<and>
     observe h' (SliceValue s) = Some (Tokens [''-o'', ''cbr0''])"
proof -
  from assms(1) have "d = cbr0"
    by (simp add: NewDetectLocalByBridgeInterface_def cbr0_def)
  with assms(2) cbr0_heap have p: "p = 0" and h: "h = snd (new_detector cbr0 empty_heap)"
    by simp_all
  show ?thesis
    unfolding p h
    by (simp add: cbr0_heap store_elem_def invoke_def lookup_def get_field_def slice_tokens_def)
qed

section \<open>The claims\<close>

text \<open>
  C1: for every CIDR string that the parser accepts, \<open>NewDetectLocalByCIDR\<close> returns a
  detector whose token sequences are \<open>["-s", cidr]\<close>, \<open>["!", "-s", cidr]\<close>,
  \<open>[family, "saddr", cidr]\<close> and \<open>[family, "saddr", "!=", cidr]\<close>, where \<open>cidr\<close> is
  the input string and \<open>family\<close> is \<open>"ip6"\<close> when the parsed network is IPv6 and
  \<open>"ip"\<close> otherwise. It holds whatever the parser and the family test are.
\<close>

theorem NewDetectLocalByCIDR_tokens:
  assumes "parseCIDR cidr = Inr (ip, parsed)"
  shows "\<exists>d. NewDetectLocalByCIDR parseCIDR isIPv6CIDR cidr = Inr d \<and>
           IfLocal d = [''-s'', cidr] \<and>
           IfNotLocal d = [''!'', ''-s'', cidr] \<and>
           IfLocalNFT d = [if isIPv6CIDR parsed then ''ip6'' else ''ip'', ''saddr'', cidr] \<and>
           IfNotLocalNFT d =
             [if isIPv6CIDR parsed then ''ip6'' else ''ip'', ''saddr'', ''!='', cidr]"
  using assms by (simp add: NewDetectLocalByCIDR_def Let_def)

text \<open>The spec's examples: \<open>10.0.0.0/8\<close> gives the family \<open>ip\<close>, \<open>fd00::/8\<close> gives \<open>ip6\<close>.\<close>

theorem NewDetectLocalByCIDR_tokens_witness:
  "(\<exists>d. NewDetectLocalByCIDR ParseCIDRSloppy IsIPv6CIDR ''10.0.0.0/8'' = Inr d \<and>
        IfLocal d = [''-s'', ''10.0.0.0/8''] \<and>
        IfNotLocal d = [''!'', ''-s'', ''10.0.0.0/8''] \<and>
        IfLocalNFT d = [''ip'', ''saddr'', ''10.0.0.0/8''] \<and>
        IfNotLocalNFT d = [''ip'', ''saddr'', ''!='', ''10.0.0.0/8'']) \<and>
   (\<exists>d. NewDetectLocalByCIDR ParseCIDRSloppy IsIPv6CIDR ''fd00::/8'' = Inr d \<and>
        IfLocal d = [''-s'', ''fd00::/8''] \<and>
        IfNotLocal d = [''!'', ''-s'', ''fd00::/8''] \<and>
        IfLocalNFT d = [''ip6'', ''saddr'', ''fd00::/8''] \<and>
        IfNotLocalNFT d = [''ip6'', ''saddr'', ''!='', ''fd00::/8''])"
  using
    NewDetectLocalByCIDR_tokens [where parseCIDR = ParseCIDRSloppy and isIPv6CIDR = IsIPv6CIDR
      and cidr = "''10.0.0.0/8''", OF parse_v4]
    NewDetectLocalByCIDR_tokens [where parseCIDR = ParseCIDRSloppy and isIPv6CIDR = IsIPv6CIDR
      and cidr = "''fd00::/8''", OF parse_v6]
    family_v4 family_v6
  by simp

text \<open>
  C2: \<open>NewDetectLocalByCIDR\<close> fails exactly when its parser rejects the input, with the
  parser's error and with no detector, and succeeds exactly when the parser accepts. With
  \<open>ParseCIDRSloppy\<close> as the parser, the error is the \<open>ParseError\<close> that carries the
  input, and the malformed input \<open>not-a-cidr\<close> fails so. A string is a syntactically
  valid address/prefix-length pair when \<open>ParseCIDRSloppy\<close> accepts it.
\<close>

theorem NewDetectLocalByCIDR_failure:
  "(NewDetectLocalByCIDR parseCIDR isIPv6CIDR cidr = Inl e) = (parseCIDR cidr = Inl e) \<and>
   (\<exists>d. NewDetectLocalByCIDR parseCIDR isIPv6CIDR cidr = Inr d) = (\<exists>r. parseCIDR cidr = Inr r) \<and>
   (NewDetectLocalByCIDR ParseCIDRSloppy IsIPv6CIDR cidr = Inl e) =
     (e = ParseError ''CIDR address'' cidr \<and> (\<nexists>r. ParseCIDRSloppy cidr = Inr r)) \<and>
   NewDetectLocalByCIDR ParseCIDRSloppy IsIPv6CIDR ''not-a-cidr'' =
     Inl (ParseError ''CIDR address'' ''not-a-cidr'')"
proof -
  have sloppy: "(ParseCIDRSloppy cidr = Inl e) =
      (e = ParseError ''CIDR address'' cidr \<and> (\<nexists>r. ParseCIDRSloppy cidr = Inr r))"
  proof (cases "ParseCIDRSloppy cidr")
    case (Inl e')
    then show ?thesis using ParseCIDRSloppy_error [of cidr e'] by auto
  next
    case (Inr r)
    then show ?thesis by simp
  qed
  have example: "NewDetectLocalByCIDR ParseCIDRSloppy IsIPv6CIDR ''not-a-cidr'' =
      Inl (ParseError ''CIDR address'' ''not-a-cidr'')"
    by (simp add: NewDetectLocalByCIDR_Inl parse_bad)
  show ?thesis
    using NewDetectLocalByCIDR_Inl [of parseCIDR isIPv6CIDR cidr e]
      NewDetectLocalByCIDR_Inr [of parseCIDR isIPv6CIDR cidr]
      NewDetectLocalByCIDR_Inl [of ParseCIDRSloppy IsIPv6CIDR cidr e] sloppy example
    by simp
qed

theorem NewDetectLocalByCIDR_failure_witness:
  "NewDetectLocalByCIDR ParseCIDRSloppy IsIPv6CIDR ''not-a-cidr'' =
     Inl (ParseError ''CIDR address'' ''not-a-cidr'') \<and>
   (\<nexists>d. NewDetectLocalByCIDR ParseCIDRSloppy IsIPv6CIDR ''not-a-cidr'' = Inr d) \<and>
   (\<exists>d. NewDetectLocalByCIDR ParseCIDRSloppy IsIPv6CIDR ''10.0.0.0/8'' = Inr d)"
  using NewDetectLocalByCIDR_failure [of ParseCIDRSloppy IsIPv6CIDR "''not-a-cidr''"
      "ParseError ''CIDR address'' ''not-a-cidr''"]
    NewDetectLocalByCIDR_failure [of ParseCIDRSloppy IsIPv6CIDR "''10.0.0.0/8''"]
    parse_v4
  by simp

text \<open>
  C3: for every detector that \<open>NewDetectLocalByCIDR\<close>, \<open>NewDetectLocalByBridgeInterface\<close>
  or \<open>NewDetectLocalByInterfaceNamePrefix\<close> returns, the legacy not-local sequence is
  the legacy local sequence with \<open>"!"\<close> put in front, and the nft not-local sequence is
  the nft local sequence with \<open>"!="\<close> put just before its last token; both local
  sequences are non-empty, so that last token exists.
\<close>

theorem not_local_negates_local:
  assumes "NewDetectLocalByCIDR parseCIDR isIPv6CIDR s = Inr d \<or>
           NewDetectLocalByBridgeInterface s = Inr d \<or>
           NewDetectLocalByInterfaceNamePrefix s = Inr d"
  shows "IfNotLocal d = ''!'' # IfLocal d \<and>
         IfNotLocalNFT d = butlast (IfLocalNFT d) @ [''!='', last (IfLocalNFT d)] \<and>
         IfLocal d \<noteq> [] \<and> IfLocalNFT d \<noteq> []"
  using assms
  by (auto simp: NewDetectLocalByCIDR_def NewDetectLocalByBridgeInterface_def
      NewDetectLocalByInterfaceNamePrefix_def Let_def split: sum.splits if_splits)

theorem not_local_negates_local_witness:
  "(\<exists>d. NewDetectLocalByCIDR ParseCIDRSloppy IsIPv6CIDR ''10.0.0.0/8'' = Inr d \<and>
        IfNotLocal d = ''!'' # IfLocal d \<and>
        IfNotLocalNFT d = butlast (IfLocalNFT d) @ [''!='', last (IfLocalNFT d)]) \<and>
   (\<exists>d. NewDetectLocalByBridgeInterface ''cbr0'' = Inr d \<and>
        IfNotLocal d = ''!'' # IfLocal d \<and>
        IfNotLocalNFT d = butlast (IfLocalNFT d) @ [''!='', last (IfLocalNFT d)]) \<and>
   (\<exists>d. NewDetectLocalByInterfaceNamePrefix ''veth'' = Inr d \<and>
        IfNotLocal d = ''!'' # IfLocal d \<and>
        IfNotLocalNFT d = butlast (IfLocalNFT d) @ [''!='', last (IfLocalNFT d)])"
proof -
  obtain d1 where d1: "NewDetectLocalByCIDR ParseCIDRSloppy IsIPv6CIDR ''10.0.0.0/8'' = Inr d1"
    by (simp add: NewDetectLocalByCIDR_def parse_v4 Let_def)
  obtain d2 where d2: "NewDetectLocalByBridgeInterface ''cbr0'' = Inr d2"
    by (simp add: NewDetectLocalByBridgeInterface_def)
  obtain d3 where d3: "NewDetectLocalByInterfaceNamePrefix ''veth'' = Inr d3"
    by (simp add: NewDetectLocalByInterfaceNamePrefix_def)
  from d1 d2 d3 show ?thesis
    using not_local_negates_local [of ParseCIDRSloppy IsIPv6CIDR "''10.0.0.0/8''" d1]
      not_local_negates_local [of ParseCIDRSloppy IsIPv6CIDR "''cbr0''" d2]
      not_local_negates_local [of ParseCIDRSloppy IsIPv6CIDR "''veth''" d3]
    by blast
qed

text \<open>
  C4: \<open>NewNoOpLocalDetector\<close> takes no parameter and always returns a detector (its
  result type has no error), and on that detector the four token accessors return the
  empty sequence.
\<close>

theorem NewNoOpLocalDetector_empty:
  "IfLocal NewNoOpLocalDetector = [] \<and> IfNotLocal NewNoOpLocalDetector = [] \<and>
   IfLocalNFT NewNoOpLocalDetector = [] \<and> IfNotLocalNFT NewNoOpLocalDetector = []"
  by (simp add: NewNoOpLocalDetector_def)

text \<open>
  C5: for every non-empty interface name \<open>n\<close>, \<open>NewDetectLocalByBridgeInterface\<close>
  returns a detector whose token sequences are \<open>["-i", n]\<close>, \<open>["!", "-i", n]\<close>,
  \<open>["iif", n]\<close> and \<open>["iif", "!=", n]\<close>.
\<close>

theorem NewDetectLocalByBridgeInterface_tokens:
  assumes "n \<noteq> []"
  shows "\<exists>d. NewDetectLocalByBridgeInterface n = Inr d \<and>
           IfLocal d = [''-i'', n] \<and>
           IfNotLocal d = [''!'', ''-i'', n] \<and>
           IfLocalNFT d = [''iif'', n] \<and>
           IfNotLocalNFT d = [''iif'', ''!='', n]"
  using assms by (simp add: NewDetectLocalByBridgeInterface_def)

text \<open>The spec's example, the name \<open>cbr0\<close>.\<close>

theorem NewDetectLocalByBridgeInterface_tokens_witness:
  "\<exists>d. NewDetectLocalByBridgeInterface ''cbr0'' = Inr d \<and>
       IfLocal d = [''-i'', ''cbr0''] \<and>
       IfNotLocal d = [''!'', ''-i'', ''cbr0''] \<and>
       IfLocalNFT d = [''iif'', ''cbr0''] \<and>
       IfNotLocalNFT d = [''iif'', ''!='', ''cbr0'']"
proof -
  have ne: "''cbr0'' \<noteq> []" by simp
  show ?thesis by (rule NewDetectLocalByBridgeInterface_tokens [OF ne])
qed

text \<open>
  C6: for every non-empty prefix \<open>p\<close>, \<open>NewDetectLocalByInterfaceNamePrefix\<close> returns a
  detector whose legacy sequences carry \<open>p\<close> followed by \<open>+\<close> and whose nft sequences
  carry \<open>p\<close> followed by \<open>*\<close>: \<open>["-i", p+]\<close>, \<open>["!", "-i", p+]\<close>, \<open>["iif", p*]\<close>
  and \<open>["iif", "!=", p*]\<close>.
\<close>

theorem NewDetectLocalByInterfaceNamePrefix_tokens:
  assumes "p \<noteq> []"
  shows "\<exists>d. NewDetectLocalByInterfaceNamePrefix p = Inr d \<and>
           IfLocal d = [''-i'', p @ ''+''] \<and>
           IfNotLocal d = [''!'', ''-i'', p @ ''+''] \<and>
           IfLocalNFT d = [''iif'', p @ ''*''] \<and>
           IfNotLocalNFT d = [''iif'', ''!='', p @ ''*'']"
  using assms by (simp add: NewDetectLocalByInterfaceNamePrefix_def)

text \<open>
  The spec's example, the prefix \<open>veth\<close>: the legacy local sequence ends with
  \<open>veth+\<close>, the nft one with \<open>veth*\<close>.
\<close>

theorem NewDetectLocalByInterfaceNamePrefix_tokens_witness:
  "\<exists>d. NewDetectLocalByInterfaceNamePrefix ''veth'' = Inr d \<and>
       IfLocal d = [''-i'', ''veth+''] \<and>
       IfNotLocal d = [''!'', ''-i'', ''veth+''] \<and>
       IfLocalNFT d = [''iif'', ''veth*''] \<and>
       IfNotLocalNFT d = [''iif'', ''!='', ''veth*''] \<and>
       last (IfLocal d) = ''veth+'' \<and> last (IfLocalNFT d) = ''veth*''"
proof -
  have ne: "''veth'' \<noteq> []" by simp
  from NewDetectLocalByInterfaceNamePrefix_tokens [OF ne] show ?thesis
    by auto
qed

text \<open>
  C7: \<open>NewDetectLocalByBridgeInterface\<close> fails exactly when its input is the empty
  string, and its error is then the one made by \<open>fmt.Errorf\<close> with the message
  \<open>no bridge interface name set\<close>; \<open>NewDetectLocalByInterfaceNamePrefix\<close> fails exactly
  when its input is the empty string, with the message \<open>no interface prefix set\<close>. Each
  returns a detector exactly when the input is not empty, so a failure comes with no
  detector. The code has no error type of its own for the two: the spec's
  \<open>InvalidConfigError\<close> is that \<open>fmt.Errorf\<close> value.
\<close>

theorem empty_input_errors:
  "(NewDetectLocalByBridgeInterface s = Inl e) =
     (s = [] \<and> e = Errorf ''no bridge interface name set'') \<and>
   (\<exists>d. NewDetectLocalByBridgeInterface s = Inr d) = (s \<noteq> []) \<and>
   (NewDetectLocalByInterfaceNamePrefix s = Inl e) =
     (s = [] \<and> e = Errorf ''no interface prefix set'') \<and>
   (\<exists>d. NewDetectLocalByInterfaceNamePrefix s = Inr d) = (s \<noteq> [])"
  by (auto simp: NewDetectLocalByBridgeInterface_def NewDetectLocalByInterfaceNamePrefix_def)

theorem empty_input_errors_witness:
  "NewDetectLocalByBridgeInterface [] = Inl (Errorf ''no bridge interface name set'') \<and>
   NewDetectLocalByInterfaceNamePrefix [] = Inl (Errorf ''no interface prefix set'') \<and>
   (\<exists>d. NewDetectLocalByBridgeInterface ''cbr0'' = Inr d) \<and>
   (\<exists>d. NewDetectLocalByInterfaceNamePrefix ''veth'' = Inr d)"
  using empty_input_errors [of "[]" "Errorf ''no bridge interface name set''"]
    empty_input_errors [of "[]" "Errorf ''no interface prefix set''"]
    empty_input_errors [of "''cbr0''"] empty_input_errors [of "''veth''"]
  by simp

text \<open>
  C8: \<open>IsImplemented\<close> is true of a detector exactly when it is not the no-op detector:
  false on the detector of \<open>NewNoOpLocalDetector\<close>, true on every detector returned by
  \<open>NewDetectLocalByCIDR\<close>, \<open>NewDetectLocalByBridgeInterface\<close> or
  \<open>NewDetectLocalByInterfaceNamePrefix\<close>.
\<close>

theorem IsImplemented_iff:
  "IsImplemented d = (d \<noteq> NewNoOpLocalDetector) \<and>
   \<not> IsImplemented NewNoOpLocalDetector \<and>
   (NewDetectLocalByCIDR parseCIDR isIPv6CIDR s = Inr d \<longrightarrow> IsImplemented d) \<and>
   (NewDetectLocalByBridgeInterface s = Inr d \<longrightarrow> IsImplemented d) \<and>
   (NewDetectLocalByInterfaceNamePrefix s = Inr d \<longrightarrow> IsImplemented d)"
  by (cases d)
    (auto simp: NewNoOpLocalDetector_def NewDetectLocalByCIDR_def
      NewDetectLocalByBridgeInterface_def NewDetectLocalByInterfaceNamePrefix_def Let_def
      split: sum.splits if_splits)

theorem IsImplemented_iff_witness:
  "\<not> IsImplemented NewNoOpLocalDetector \<and>
   (\<exists>d. NewDetectLocalByCIDR ParseCIDRSloppy IsIPv6CIDR ''10.0.0.0/8'' = Inr d \<and> IsImplemented d) \<and>
   (\<exists>d. NewDetectLocalByBridgeInterface ''cbr0'' = Inr d \<and> IsImplemented d) \<and>
   (\<exists>d. NewDetectLocalByInterfaceNamePrefix ''veth'' = Inr d \<and> IsImplemented d)"
proof -
  obtain d1 where d1: "NewDetectLocalByCIDR ParseCIDRSloppy IsIPv6CIDR ''10.0.0.0/8'' = Inr d1"
    by (simp add: NewDetectLocalByCIDR_def parse_v4 Let_def)
  obtain d2 where d2: "NewDetectLocalByBridgeInterface ''cbr0'' = Inr d2"
    by (simp add: NewDetectLocalByBridgeInterface_def)
  obtain d3 where d3: "NewDetectLocalByInterfaceNamePrefix ''veth'' = Inr d3"
    by (simp add: NewDetectLocalByInterfaceNamePrefix_def)
  from d1 d2 d3 show ?thesis
    using IsImplemented_iff [of d1 ParseCIDRSloppy IsIPv6CIDR "''10.0.0.0/8''"]
      IsImplemented_iff [of d2 ParseCIDRSloppy IsIPv6CIDR "''cbr0''"]
      IsImplemented_iff [of d3 ParseCIDRSloppy IsIPv6CIDR "''veth''"]
    by blast
qed

text \<open>
  C9: on a heap that holds a detector, a call of any of the five accessors returns and
  leaves the heap as it was, so the detector and its token sequences are unchanged, and
  what it returns shows what the accessor says of the detector; any sequence of
  accessor calls returns, call by call, the value that the same call returns on the
  heap before the sequence, and leaves that heap. It is a property of the twenty bodies
  of \<open>method_body\<close>: a body that assigns does not have it
  (\<open>writing_body_is_told_apart\<close>).
\<close>

theorem accessor_calls_pure:
  assumes "detector_at h p = Some d"
  shows "(\<exists>v. invoke a p h = Returned v h \<and> observe h v = Some (answer a d)) \<and>
         (\<exists>vs. invokes as p h = Some (vs, h) \<and>
            list_all2 (\<lambda>a v. invoke a p h = Returned v h \<and> observe h v = Some (answer a d))
              as vs)"
  using invoke_returns [OF assms, of a] invokes_returns [OF assms, of as]
  by blast

theorem accessor_calls_pure_witness:
  "\<exists>d p h vs. NewDetectLocalByBridgeInterface ''cbr0'' = Inr d \<and>
     new_detector d empty_heap = (p, h) \<and>
     invokes [Call_IfLocal, Call_IsImplemented, Call_IfLocal] p h = Some (vs, h) \<and>
     map (observe h) vs =
       [Some (Tokens [''-i'', ''cbr0'']), Some (Bool True), Some (Tokens [''-i'', ''cbr0''])]"
proof -
  obtain d where d: "NewDetectLocalByBridgeInterface ''cbr0'' = Inr d"
    and toks: "IfLocal d = [''-i'', ''cbr0'']" and impl: "IsImplemented d"
    by (simp add: NewDetectLocalByBridgeInterface_def)
  obtain p h where ph: "new_detector d empty_heap = (p, h)"
    by (cases "new_detector d empty_heap")
  have rep: "detector_at h p = Some d"
    using new_detector_represents [of d empty_heap] ph by simp
  from accessor_calls_pure [OF rep, of Call_IfLocal "[Call_IfLocal, Call_IsImplemented, Call_IfLocal]"]
  obtain vs where vs: "invokes [Call_IfLocal, Call_IsImplemented, Call_IfLocal] p h = Some (vs, h)"
    and each: "list_all2 (\<lambda>a v. invoke a p h = Returned v h \<and> observe h v = Some (answer a d))
      [Call_IfLocal, Call_IsImplemented, Call_IfLocal] vs"
    by blast
  from each toks impl have "map (observe h) vs =
      [Some (Tokens [''-i'', ''cbr0'']), Some (Bool True), Some (Tokens [''-i'', ''cbr0''])]"
    by (auto simp: list_all2_Cons1)
  with d ph vs show ?thesis
    by (intro exI [of _ d] exI [of _ p] exI [of _ h] exI [of _ vs]) simp
qed

text \<open>
  C10: \<open>NewDetectLocalByCIDR\<close> puts the input string itself last in each of its four
  token sequences, whatever the parser made of it. \<open>ParseCIDRSloppy\<close> accepts
  \<open>10.0.0.1/8\<close>, whose address has bits set beyond the 8-bit prefix: the parsed network
  is \<open>10.0.0.0\<close> under the mask \<open>255.0.0.0\<close>, the same as for \<open>10.0.0.0/8\<close>, and the
  detector carries \<open>10.0.0.1/8\<close> all the same, so the two inputs give different
  detectors for one network.
\<close>

theorem NewDetectLocalByCIDR_verbatim:
  "(parseCIDR cidr = Inr (ip, parsed) \<longrightarrow>
     (\<exists>d. NewDetectLocalByCIDR parseCIDR isIPv6CIDR cidr = Inr d \<and>
          last (IfLocal d) = cidr \<and> last (IfNotLocal d) = cidr \<and>
          last (IfLocalNFT d) = cidr \<and> last (IfNotLocalNFT d) = cidr)) \<and>
   ParseCIDRSloppy ''10.0.0.1/8'' =
     Inr (IPv4 10 0 0 1, \<lparr> IP = [10, 0, 0, 0], Mask = [255, 0, 0, 0] \<rparr>) \<and>
   ParseCIDRSloppy ''10.0.0.0/8'' =
     Inr (IPv4 10 0 0 0, \<lparr> IP = [10, 0, 0, 0], Mask = [255, 0, 0, 0] \<rparr>) \<and>
   NewDetectLocalByCIDR ParseCIDRSloppy IsIPv6CIDR ''10.0.0.1/8'' =
     Inr (detectLocalByCIDR
       \<lparr> ifLocal = [''-s'', ''10.0.0.1/8''],
         ifNotLocal = [''!'', ''-s'', ''10.0.0.1/8''],
         ifLocalNFT = [''ip'', ''saddr'', ''10.0.0.1/8''],
         ifNotLocalNFT = [''ip'', ''saddr'', ''!='', ''10.0.0.1/8''] \<rparr>) \<and>
   NewDetectLocalByCIDR ParseCIDRSloppy IsIPv6CIDR ''10.0.0.1/8'' \<noteq>
     NewDetectLocalByCIDR ParseCIDRSloppy IsIPv6CIDR ''10.0.0.0/8''"
proof -
  have general: "parseCIDR cidr = Inr (ip, parsed) \<longrightarrow>
     (\<exists>d. NewDetectLocalByCIDR parseCIDR isIPv6CIDR cidr = Inr d \<and>
          last (IfLocal d) = cidr \<and> last (IfNotLocal d) = cidr \<and>
          last (IfLocalNFT d) = cidr \<and> last (IfNotLocalNFT d) = cidr)"
    by (simp add: NewDetectLocalByCIDR_def Let_def)
  have host: "NewDetectLocalByCIDR ParseCIDRSloppy IsIPv6CIDR ''10.0.0.1/8'' =
     Inr (detectLocalByCIDR
       \<lparr> ifLocal = [''-s'', ''10.0.0.1/8''],
         ifNotLocal = [''!'', ''-s'', ''10.0.0.1/8''],
         ifLocalNFT = [''ip'', ''saddr'', ''10.0.0.1/8''],
         ifNotLocalNFT = [''ip'', ''saddr'', ''!='', ''10.0.0.1/8''] \<rparr>)"
    by (simp add: NewDetectLocalByCIDR_def parse_v4_host family_v4 Let_def)
  have net: "NewDetectLocalByCIDR ParseCIDRSloppy IsIPv6CIDR ''10.0.0.0/8'' =
     Inr (detectLocalByCIDR
       \<lparr> ifLocal = [''-s'', ''10.0.0.0/8''],
         ifNotLocal = [''!'', ''-s'', ''10.0.0.0/8''],
         ifLocalNFT = [''ip'', ''saddr'', ''10.0.0.0/8''],
         ifNotLocalNFT = [''ip'', ''saddr'', ''!='', ''10.0.0.0/8''] \<rparr>)"
    by (simp add: NewDetectLocalByCIDR_def parse_v4 family_v4 Let_def)
  have differ: "NewDetectLocalByCIDR ParseCIDRSloppy IsIPv6CIDR ''10.0.0.1/8'' \<noteq>
     NewDetectLocalByCIDR ParseCIDRSloppy IsIPv6CIDR ''10.0.0.0/8''"
    unfolding host net by simp
  from general parse_v4_host parse_v4 host differ show ?thesis
    by blast
qed

theorem NewDetectLocalByCIDR_verbatim_witness:
  "\<exists>d. NewDetectLocalByCIDR ParseCIDRSloppy IsIPv6CIDR ''10.0.0.1/8'' = Inr d \<and>
       last (IfLocal d) = ''10.0.0.1/8'' \<and> last (IfNotLocal d) = ''10.0.0.1/8'' \<and>
       last (IfLocalNFT d) = ''10.0.0.1/8'' \<and> last (IfNotLocalNFT d) = ''10.0.0.1/8''"
  using NewDetectLocalByCIDR_verbatim [of ParseCIDRSloppy "''10.0.0.1/8''" "IPv4 10 0 0 1"
      "\<lparr> IP = [10, 0, 0, 0], Mask = [255, 0, 0, 0] \<rparr>" IsIPv6CIDR]
  by blast

end
